theory Spec2Isabelle
  imports Complex_Main "HOL-Library.Log_Nat"
begin

section \<open>Platform strings and byte arrays\<close>

text \<open>
  A \<^verbatim>\<open>Uint8Array\<close> is a list of bytes (\<^typ>\<open>char\<close> is the 8-bit character type).
  A JavaScript string is modelled as a list of 8-bit characters as well.  The platform's
  \<^verbatim>\<open>TextDecoder\<close> and \<^verbatim>\<open>TextEncoder\<close> are the identity on ASCII text, and so are
  \<open>decodeUtf8\<close> and \<open>encodeUtf8\<close> below; a byte above \<open>0x7F\<close> is kept as one character
  of the same code, where the platform would decode a multi-byte sequence or substitute
  U+FFFD.  \<open>toLowerCase\<close> and \<open>trim\<close> are the platform functions restricted to this
  character range.
\<close>

type_synonym bytes = "char list"

abbreviation CR :: char where "CR \<equiv> CHR 0x0D"
abbreviation LF :: char where "LF \<equiv> CHR 0x0A"
abbreviation SP :: char where "SP \<equiv> CHR 0x20"
abbreviation CRLF :: string where "CRLF \<equiv> [CR, LF]"

definition decodeUtf8 :: "bytes \<Rightarrow> string" where
  "decodeUtf8 bs = bs"

definition encodeUtf8 :: "string \<Rightarrow> bytes" where
  "encodeUtf8 s = s"

definition charCode :: "char \<Rightarrow> nat" where
  "charCode c = of_char c"

text \<open>\<^verbatim>\<open>xs.slice(s, e)\<close> and \<^verbatim>\<open>xs.slice(s)\<close> for indices that are not negative.\<close>

definition slice :: "nat \<Rightarrow> nat \<Rightarrow> 'a list \<Rightarrow> 'a list" where
  "slice s e xs = take (e - s) (drop s xs)"

definition sliceFrom :: "nat \<Rightarrow> 'a list \<Rightarrow> 'a list" where
  "sliceFrom s xs = drop s xs"

text \<open>\<^verbatim>\<open>xs[i]\<close>: \<^verbatim>\<open>undefined\<close> (here \<open>None\<close>) out of range.\<close>

definition byteAt :: "'a list \<Rightarrow> nat \<Rightarrow> 'a option" where
  "byteAt xs i = (if i < length xs then Some (xs ! i) else None)"

definition lowerChar :: "char \<Rightarrow> char" where
  "lowerChar c = (if 65 \<le> charCode c \<and> charCode c \<le> 90 then char_of (charCode c + 32) else c)"

definition toLowerCase :: "string \<Rightarrow> string" where
  "toLowerCase s = map lowerChar s"

definition isWhiteSpace :: "char \<Rightarrow> bool" where
  "isWhiteSpace c = (charCode c = 9 \<or> charCode c = 10 \<or> charCode c = 11 \<or> charCode c = 12
     \<or> charCode c = 13 \<or> charCode c = 32)"

definition trim :: "string \<Rightarrow> string" where
  "trim s = rev (dropWhile isWhiteSpace (rev (dropWhile isWhiteSpace s)))"

definition startsWith :: "string \<Rightarrow> string \<Rightarrow> bool" where
  "startsWith s p = (take (length p) s = p)"

fun str_includes :: "string \<Rightarrow> string \<Rightarrow> bool" where
  "str_includes [] sub = (sub = [])"
| "str_includes (c # cs) sub = (startsWith (c # cs) sub \<or> str_includes cs sub)"

fun indexOf :: "string \<Rightarrow> char \<Rightarrow> nat option" where
  "indexOf [] c = None"
| "indexOf (x # xs) c = (if x = c then Some 0 else map_option Suc (indexOf xs c))"

text \<open>\<^verbatim>\<open>s.split("\r\n")\<close>: the pieces between the occurrences of CR LF, scanned from the left.\<close>

fun splitCRLF :: "string \<Rightarrow> string list" where
  "splitCRLF [] = [[]]"
| "splitCRLF [c] = [[c]]"
| "splitCRLF (c # d # cs) =
     (if c = CR \<and> d = LF then [] # splitCRLF cs
      else (case splitCRLF (d # cs) of [] \<Rightarrow> [[c]] | l # ls \<Rightarrow> (c # l) # ls))"

text \<open>\<^verbatim>\<open>s.split(c)[0]\<close>: the piece before the first \<open>c\<close>, all of \<open>s\<close> when there is none.\<close>

definition splitFirst :: "char \<Rightarrow> string \<Rightarrow> string" where
  "splitFirst c s = takeWhile (\<lambda>x. x \<noteq> c) s"

fun join :: "string \<Rightarrow> string list \<Rightarrow> string" where
  "join sep [] = []"
| "join sep [x] = x"
| "join sep (x # y # ys) = x @ sep @ join sep (y # ys)"

text \<open>
  A \<^verbatim>\<open>for (let i = s; i < e; i++) if (P(i)) { found = i; break; }\<close> loop: the first index
  in \<open>[s, e)\<close> where \<open>P\<close> holds, \<open>None\<close> for the source's \<open>-1\<close>.
\<close>

definition findFirst :: "(nat \<Rightarrow> bool) \<Rightarrow> nat \<Rightarrow> nat \<Rightarrow> nat option" where
  "findFirst P s e = List.find P [s..<e]"

text \<open>A JavaScript \<^verbatim>\<open>Map\<close>: an association list in insertion order.\<close>

fun Map_set :: "'k \<Rightarrow> 'v \<Rightarrow> ('k \<times> 'v) list \<Rightarrow> ('k \<times> 'v) list" where
  "Map_set k v [] = [(k, v)]"
| "Map_set k v (p # ps) = (if fst p = k then (k, v) # ps else p # Map_set k v ps)"

definition Map_get :: "('k \<times> 'v) list \<Rightarrow> 'k \<Rightarrow> 'v option" where
  "Map_get m k = map_of m k"

definition Map_has :: "('k \<times> 'v) list \<Rightarrow> 'k \<Rightarrow> bool" where
  "Map_has m k = (map_of m k \<noteq> None)"


section \<open>The header container (headers.ts)\<close>

record Header =
  h_name :: string
  h_value :: string

text \<open>
  \<open>hm_headers\<close> is the map from unique keys to entries, \<open>lowerCaseMap\<close> the index from
  lowercase names to the keys of their entries.  The source builds a key from the name,
  \<^verbatim>\<open>Date.now()\<close> and \<^verbatim>\<open>Math.random()\<close> and comments that it is unique; the model
  draws the keys from a counter, \<open>nextKey\<close>.
\<close>

record HeadersMap =
  hm_headers :: "(nat \<times> Header) list"
  lowerCaseMap :: "(string \<times> nat list) list"
  nextKey :: nat

definition HeadersMap_new :: HeadersMap where
  "HeadersMap_new = \<lparr>hm_headers = [], lowerCaseMap = [], nextKey = 0\<rparr>"

definition valueOrEmpty :: "HeadersMap \<Rightarrow> nat \<Rightarrow> string" where
  "valueOrEmpty H k = (case Map_get (hm_headers H) k of None \<Rightarrow> [] | Some h \<Rightarrow> h_value h)"

definition HeadersMap_get :: "HeadersMap \<Rightarrow> string \<Rightarrow> string option" where
  "HeadersMap_get H nm =
     (case Map_get (lowerCaseMap H) (toLowerCase nm) of
        None \<Rightarrow> None
      | Some originalNames \<Rightarrow>
          if length originalNames = 0 then None
          else if length originalNames = 1
            then map_option h_value (Map_get (hm_headers H) (originalNames ! 0))
          else Some (join '', '' (map (valueOrEmpty H) originalNames)))"

definition HeadersMap_has :: "HeadersMap \<Rightarrow> string \<Rightarrow> bool" where
  "HeadersMap_has H nm = Map_has (lowerCaseMap H) (toLowerCase nm)"

definition HeadersMap_getAll :: "HeadersMap \<Rightarrow> string \<Rightarrow> string list" where
  "HeadersMap_getAll H nm =
     (case Map_get (lowerCaseMap H) (toLowerCase nm) of
        None \<Rightarrow> []
      | Some originalNames \<Rightarrow> map (valueOrEmpty H) originalNames)"

definition HeadersMap_append :: "string \<Rightarrow> string \<Rightarrow> HeadersMap \<Rightarrow> HeadersMap" where
  "HeadersMap_append nm v H =
     (let lowerName = toLowerCase nm;
          uniqueKey = nextKey H;
          hs = Map_set uniqueKey \<lparr>h_name = nm, h_value = v\<rparr> (hm_headers H);
          lcm = (if \<not> Map_has (lowerCaseMap H) lowerName
                 then Map_set lowerName [] (lowerCaseMap H) else lowerCaseMap H);
          lcm' = (case Map_get lcm lowerName of
                    None \<Rightarrow> lcm
                  | Some ks \<Rightarrow> Map_set lowerName (ks @ [uniqueKey]) lcm)
      in \<lparr>hm_headers = hs, lowerCaseMap = lcm', nextKey = Suc (nextKey H)\<rparr>)"





definition HeadersMap_entries :: "HeadersMap \<Rightarrow> (string \<times> string) list" where
  "HeadersMap_entries H = map (\<lambda>kh. (h_name (snd kh), h_value (snd kh))) (hm_headers H)"

definition HeadersMap_size :: "HeadersMap \<Rightarrow> nat" where
  "HeadersMap_size H = length (lowerCaseMap H)"

definition totalEntries :: "HeadersMap \<Rightarrow> nat" where
  "totalEntries H = length (hm_headers H)"

definition toBytes :: "HeadersMap \<Rightarrow> bytes" where
  "toBytes H = encodeUtf8
     (concat (map (\<lambda>kh. h_name (snd kh) @ '': '' @ h_value (snd kh) @ CRLF) (hm_headers H)) @ CRLF)"

definition equals :: "HeadersMap \<Rightarrow> HeadersMap \<Rightarrow> bool" where
  "equals H other =
     (if totalEntries H \<noteq> totalEntries other then False
      else list_all (\<lambda>kh. h_value (snd kh) \<in> set (HeadersMap_getAll other (h_name (snd kh))))
             (hm_headers H))"





section \<open>Number conversions of the platform\<close>

text \<open>
  \<^verbatim>\<open>parseInt(s, radix)\<close>: leading white space is skipped, then an optional sign, then (for
  radix 16) an optional \<^verbatim>\<open>0x\<close>, then the longest run of digits of the radix; \<open>None\<close> is
  \<^verbatim>\<open>NaN\<close>.  What follows the digits is ignored.
\<close>

definition digitVal :: "char \<Rightarrow> nat option" where
  "digitVal c =
     (let n = charCode c in
      if 48 \<le> n \<and> n \<le> 57 then Some (n - 48)
      else if 97 \<le> n \<and> n \<le> 122 then Some (n - 87)
      else if 65 \<le> n \<and> n \<le> 90 then Some (n - 55)
      else None)"

definition isDigitIn :: "nat \<Rightarrow> char \<Rightarrow> bool" where
  "isDigitIn r c = (case digitVal c of None \<Rightarrow> False | Some d \<Rightarrow> d < r)"

definition digitsValue :: "nat \<Rightarrow> string \<Rightarrow> nat" where
  "digitsValue r ds = foldl (\<lambda>acc c. acc * r + (case digitVal c of None \<Rightarrow> 0 | Some d \<Rightarrow> d)) 0 ds"

definition stripSign :: "string \<Rightarrow> bool \<times> string" where
  "stripSign s =
     (case s of
        [] \<Rightarrow> (False, [])
      | c # cs \<Rightarrow> if c = CHR ''-'' then (True, cs) else if c = CHR ''+'' then (False, cs) else (False, s))"

definition parseInt :: "string \<Rightarrow> nat \<Rightarrow> int option" where
  "parseInt s radix =
     (let (neg, s1) = stripSign (dropWhile isWhiteSpace s);
          s2 = (if radix = 16 \<and> (startsWith s1 ''0x'' \<or> startsWith s1 ''0X'') then drop 2 s1 else s1);
          ds = takeWhile (isDigitIn radix) s2
      in if ds = [] then None
         else Some (if neg then - int (digitsValue radix ds) else int (digitsValue radix ds)))"

text \<open>
  \<^verbatim>\<open>Number(s)\<close> on a string: the whole trimmed string must be a numeric literal (a signed
  decimal literal with optional fraction and exponent, \<^verbatim>\<open>Infinity\<close>, or an unsigned
  \<^verbatim>\<open>0x\<close>, \<^verbatim>\<open>0o\<close>, \<^verbatim>\<open>0b\<close> literal); the empty string is 0.  The mathematical value is
  rounded to the nearest IEEE 754 binary64 number, ties to even.  The sign of a zero is not
  kept: no caller below can observe it.
\<close>

datatype jsnumber = NaN | Infinite bool | Finite rat

definition floorLog2 :: "rat \<Rightarrow> int" where
  "floorLog2 q = (let (n, d) = quotient_of q; k = bitlen n - bitlen d in if 2 powi k \<le> q then k else k - 1)"

definition roundHalfEven :: "rat \<Rightarrow> int" where
  "roundHalfEven q =
     (let f = \<lfloor>q\<rfloor>; r = q - of_int f in
      if r < 1 / 2 then f else if 1 / 2 < r then f + 1 else if even f then f else f + 1)"

definition roundToDouble :: "rat \<Rightarrow> jsnumber" where
  "roundToDouble q =
     (if q = 0 then Finite 0
      else let a = \<bar>q\<bar>;
               e = max (floorLog2 a) (- 1022);
               u = 2 powi (e - 52);
               r = of_int (roundHalfEven (a / u)) * u
           in if 2 ^ 1024 \<le> r then Infinite (q < 0) else Finite (if q < 0 then - r else r))"

definition nonDecimalLiteral :: "string \<Rightarrow> nat \<Rightarrow> jsnumber" where
  "nonDecimalLiteral ds radix =
     (if ds \<noteq> [] \<and> list_all (isDigitIn radix) ds then roundToDouble (of_nat (digitsValue radix ds))
      else NaN)"

definition exponentPart :: "string \<Rightarrow> int option" where
  "exponentPart s =
     (case s of
        [] \<Rightarrow> Some 0
      | c # cs \<Rightarrow>
          if c = CHR ''e'' \<or> c = CHR ''E'' then
            (let (neg, ds) = stripSign cs in
             if ds \<noteq> [] \<and> list_all (isDigitIn 10) ds
             then Some (if neg then - int (digitsValue 10 ds) else int (digitsValue 10 ds))
             else None)
          else None)"

definition decimalLiteral :: "string \<Rightarrow> jsnumber" where
  "decimalLiteral s =
     (let (neg, u) = stripSign s in
      if u = ''Infinity'' then Infinite neg
      else
        let intDigits = takeWhile (isDigitIn 10) u;
            r1 = dropWhile (isDigitIn 10) u;
            hasDot = (r1 \<noteq> [] \<and> hd r1 = CHR ''.'');
            fracDigits = (if hasDot then takeWhile (isDigitIn 10) (tl r1) else []);
            r2 = (if hasDot then dropWhile (isDigitIn 10) (tl r1) else r1)
        in if intDigits = [] \<and> fracDigits = [] then NaN
           else case exponentPart r2 of
                  None \<Rightarrow> NaN
                | Some ex \<Rightarrow>
                    let mant = of_nat (digitsValue 10 intDigits)
                             + of_nat (digitsValue 10 fracDigits) / 10 ^ length fracDigits;
                        mv = mant * 10 powi ex
                    in roundToDouble (if neg then - mv else mv))"

definition Number :: "string \<Rightarrow> jsnumber" where
  "Number s =
     (let t = trim s in
      if t = [] then Finite 0
      else if startsWith t ''0x'' \<or> startsWith t ''0X'' then nonDecimalLiteral (drop 2 t) 16
      else if startsWith t ''0o'' \<or> startsWith t ''0O'' then nonDecimalLiteral (drop 2 t) 8
      else if startsWith t ''0b'' \<or> startsWith t ''0B'' then nonDecimalLiteral (drop 2 t) 2
      else decimalLiteral t)"

definition isInteger :: "jsnumber \<Rightarrow> bool" where
  "isInteger x = (case x of Finite q \<Rightarrow> of_int \<lfloor>q\<rfloor> = q | _ \<Rightarrow> False)"

definition isNegative :: "jsnumber \<Rightarrow> bool" where
  "isNegative x = (case x of Finite q \<Rightarrow> q < 0 | Infinite neg \<Rightarrow> neg | NaN \<Rightarrow> False)"

section \<open>Validators (errors.ts)\<close>

datatype ParserErrorCode =
    INVALID_METHOD | INVALID_VERSION | INVALID_TARGET | INVALID_STATUS_CODE | INVALID_HEADER
  | HEADER_NAME_TOO_LONG | HEADER_VALUE_TOO_LONG | TOO_MANY_HEADERS | INVALID_CONTENT_LENGTH
  | BODY_TOO_LARGE | INVALID_CHUNK_SIZE | INCOMPLETE_CHUNK | INVALID_CHUNK_TRAILER | TIMEOUT
  | CONNECTION_CLOSED | UNKNOWN

definition standardMethods :: "string list" where
  "standardMethods =
     [''GET'', ''HEAD'', ''POST'', ''PUT'', ''DELETE'', ''CONNECT'', ''OPTIONS'', ''TRACE'', ''PATCH'']"

text \<open>The separators \<^verbatim>\<open>( ) < > @ , ; : \ " / [ ] ? = { }\<close>, space and tab.\<close>

definition separatorChars :: "char list" where
  "separatorChars =
     [CHR ''('', CHR '')'', CHR ''<'', CHR ''>'', CHR ''@'', CHR '','', CHR '';'', CHR '':'',
      CHR 0x5C, CHR 0x22, CHR ''/'', CHR ''['', CHR '']'', CHR ''?'', CHR ''='', CHR ''{'', CHR ''}'',
      CHR '' '', CHR 0x09]"

definition isValidMethod :: "string \<Rightarrow> bool" where
  "isValidMethod m =
     (if m \<in> set standardMethods then True
      else if length m = 0 \<or> length m > 100 then False
      else list_all (\<lambda>c. \<not> (charCode c \<le> 31 \<or> charCode c = 127) \<and> c \<notin> set separatorChars) m)"

definition isValidVersion :: "string \<Rightarrow> bool" where
  "isValidVersion v = (v = ''HTTP/1.0'' \<or> v = ''HTTP/1.1'')"

definition isValidStatusCode :: "int \<Rightarrow> bool" where
  "isValidStatusCode statusCode = (statusCode \<ge> 100 \<and> statusCode \<le> 999)"

definition isValidHeaderName :: "string \<Rightarrow> bool \<Rightarrow> bool" where
  "isValidHeaderName nm allowUnderscore =
     (if length nm = 0 \<or> length nm > 256 then False
      else list_all (\<lambda>c. \<not> (charCode c \<le> 31 \<or> charCode c = 127)
                         \<and> \<not> (\<not> allowUnderscore \<and> c = CHR ''_'')
                         \<and> c \<notin> set separatorChars) nm)"

definition isValidHeaderValue :: "string \<Rightarrow> bool" where
  "isValidHeaderValue v =
     (if length v > 8192 then False
      else list_all (\<lambda>c. charCode c = 9 \<or> charCode c = 10 \<or> charCode c = 12 \<or> charCode c = 13
                         \<or> (charCode c \<ge> 32 \<and> charCode c \<le> 126)) v)"

definition isValidTarget :: "string \<Rightarrow> bool" where
  "isValidTarget t =
     (if length t = 0 \<or> length t > 8192 then False
      else if hd t = CHR ''/'' then True
      else if str_includes t ''://'' then True
      else if t = ''*'' then True
      else if \<not> str_includes t ''/'' \<and> str_includes t '':'' then True
      else False)"

definition parseContentLength :: "string \<Rightarrow> nat option" where
  "parseContentLength v =
     (let v' = trim v in
      if v' = [] then None
      else let len = Number v' in
           if \<not> isInteger len \<or> isNegative len then None
           else (case len of Finite q \<Rightarrow> Some (nat \<lfloor>q\<rfloor>) | _ \<Rightarrow> None))"

text \<open>
  \<^verbatim>\<open>parseInt\<close> yields a binary64 number; the model keeps the exact integer, which decides
  the comparison with \<open>maxSize\<close> the same way for every \<open>maxSize\<close> below \<open>2^53\<close>.
\<close>

definition parseChunkSize :: "string \<Rightarrow> nat \<Rightarrow> nat option" where
  "parseChunkSize hex maxSize =
     (let hex' = trim hex in
      if hex' = [] then None
      else case parseInt hex' 16 of
             None \<Rightarrow> None
           | Some sz \<Rightarrow>
               if sz < 0 then None
               else if sz > int maxSize then None
               else Some (nat sz))"


section \<open>Start-line tokenizers (request.ts, response.ts)\<close>

record RequestLine =
  rl_method :: string
  rl_target :: string
  rl_version :: string

record RequestLineResult =
  rlr_requestLine :: "RequestLine option"
  rlr_bytesConsumed :: nat
  rlr_needsMoreData :: bool
  rlr_error :: "string option"

definition isCRLFAt :: "bytes \<Rightarrow> nat \<Rightarrow> bool" where
  "isCRLFAt d i = (byteAt d i = Some CR \<and> byteAt d (i + 1) = Some LF)"

definition isSpaceAt :: "bytes \<Rightarrow> nat \<Rightarrow> bool" where
  "isSpaceAt d i = (byteAt d i = Some SP)"

definition requestLineMore :: RequestLineResult where
  "requestLineMore =
     \<lparr>rlr_requestLine = None, rlr_bytesConsumed = 0, rlr_needsMoreData = True, rlr_error = None\<rparr>"

definition requestLineError :: "string \<Rightarrow> RequestLineResult" where
  "requestLineError e =
     \<lparr>rlr_requestLine = None, rlr_bytesConsumed = 0, rlr_needsMoreData = False, rlr_error = Some e\<rparr>"

definition parseRequestLine :: "bytes \<Rightarrow> nat \<Rightarrow> nat \<Rightarrow> RequestLineResult" where
  "parseRequestLine d start end =
     (let crlfPos = findFirst (isCRLFAt d) start (end - 1);
          hasCrlf = (crlfPos \<noteq> None);
          lineEnd = (case crlfPos of Some c \<Rightarrow> c | None \<Rightarrow> end)
      in case findFirst (isSpaceAt d) start lineEnd of
           None \<Rightarrow> requestLineMore
         | Some firstSpace \<Rightarrow>
             let found = findFirst (isSpaceAt d) (firstSpace + 1) lineEnd in
             if found = None \<and> \<not> hasCrlf then
               (if firstSpace + 1 < lineEnd
                   \<and> \<not> startsWith (decodeUtf8 (slice (firstSpace + 1) lineEnd d)) ''HTTP/''
                then requestLineMore else requestLineMore)
             else
               let secondSpace = (case found of None \<Rightarrow> lineEnd | Some i \<Rightarrow> i);
                   method = decodeUtf8 (slice start firstSpace d);
                   target = decodeUtf8 (slice (firstSpace + 1) secondSpace d);
                   version = decodeUtf8 (slice (secondSpace + 1) lineEnd d)
               in if \<not> isValidMethod method then requestLineError ''Invalid HTTP method''
                  else if \<not> isValidTarget target then requestLineError ''Invalid request target''
                  else if \<not> isValidVersion version then requestLineError ''Invalid HTTP version''
                  else \<lparr>rlr_requestLine =
                          Some \<lparr>rl_method = method, rl_target = target, rl_version = version\<rparr>,
                        rlr_bytesConsumed = (case crlfPos of Some c \<Rightarrow> c + 2 | None \<Rightarrow> end - start),
                        rlr_needsMoreData = False, rlr_error = None\<rparr>)"

record StatusLine =
  sl_version :: string
  sl_statusCode :: int
  sl_statusText :: string

record StatusLineResult =
  slr_statusLine :: "StatusLine option"
  slr_bytesConsumed :: nat
  slr_needsMoreData :: bool
  slr_error :: "string option"

definition statusLineMore :: StatusLineResult where
  "statusLineMore =
     \<lparr>slr_statusLine = None, slr_bytesConsumed = 0, slr_needsMoreData = True, slr_error = None\<rparr>"

definition statusLineError :: "string \<Rightarrow> StatusLineResult" where
  "statusLineError e =
     \<lparr>slr_statusLine = None, slr_bytesConsumed = 0, slr_needsMoreData = False, slr_error = Some e\<rparr>"

text \<open>
  \<^verbatim>\<open>isValidStatusCode(NaN)\<close> is false: both comparisons with \<^verbatim>\<open>NaN\<close> fail.
\<close>

definition parseStatusLine :: "bytes \<Rightarrow> nat \<Rightarrow> nat \<Rightarrow> StatusLineResult" where
  "parseStatusLine d start end =
     (let crlfPos = findFirst (isCRLFAt d) start (end - 1);
          hasCrlf = (crlfPos \<noteq> None);
          lineEnd = (case crlfPos of Some c \<Rightarrow> c | None \<Rightarrow> end)
      in case findFirst (isSpaceAt d) start lineEnd of
           None \<Rightarrow> statusLineMore
         | Some firstSpace \<Rightarrow>
             let found = findFirst (isSpaceAt d) (firstSpace + 1) lineEnd in
             if found = None \<and> \<not> hasCrlf then
               (if firstSpace + 1 < lineEnd
                   \<and> (case parseInt (decodeUtf8 (slice (firstSpace + 1) lineEnd d)) 10 of
                         None \<Rightarrow> True | Some c \<Rightarrow> c < 100 \<or> c > 599)
                then statusLineMore else statusLineMore)
             else
               let secondSpace = (case found of None \<Rightarrow> lineEnd | Some i \<Rightarrow> i);
                   version = decodeUtf8 (slice start firstSpace d)
               in if \<not> isValidVersion version then statusLineError ''Invalid HTTP version''
                  else case parseInt (decodeUtf8 (slice (firstSpace + 1) secondSpace d)) 10 of
                         None \<Rightarrow> statusLineError ''Invalid status code''
                       | Some statusCode \<Rightarrow>
                           if \<not> isValidStatusCode statusCode then statusLineError ''Invalid status code''
                           else \<lparr>slr_statusLine =
                                   Some \<lparr>sl_version = version, sl_statusCode = statusCode,
                                         sl_statusText = decodeUtf8 (slice (secondSpace + 1) lineEnd d)\<rparr>,
                                 slr_bytesConsumed =
                                   (case crlfPos of Some c \<Rightarrow> c + 2 | None \<Rightarrow> end - start),
                                 slr_needsMoreData = False, slr_error = None\<rparr>)"

section \<open>Header lines and header blocks (headers.ts)\<close>

definition parseHeaderLine :: "string \<Rightarrow> (string \<times> string) option" where
  "parseHeaderLine line =
     (case indexOf line (CHR '':'') of
        None \<Rightarrow> None
      | Some colonIndex \<Rightarrow>
          let nm = trim (slice 0 colonIndex line);
              v = trim (sliceFrom (colonIndex + 1) line)
          in if nm = [] then None
             else if v = [] then None
             else Some (nm, v))"

text \<open>The loop over the lines: \<open>None\<close> is the early \<^verbatim>\<open>return null\<close>, an empty line breaks.\<close>

fun parseHeaders_lines :: "nat \<Rightarrow> nat \<Rightarrow> string list \<Rightarrow> HeadersMap \<Rightarrow> HeadersMap option" where
  "parseHeaders_lines maxHeaders maxLineLength [] H = Some H"
| "parseHeaders_lines maxHeaders maxLineLength (line # lines) H =
     (if length line > maxLineLength then None
      else if line = [] then Some H
      else if totalEntries H \<ge> maxHeaders then None
      else case parseHeaderLine line of
             None \<Rightarrow> None
           | Some (nm, v) \<Rightarrow> parseHeaders_lines maxHeaders maxLineLength lines (HeadersMap_append nm v H))"

definition parseHeaders :: "string \<Rightarrow> nat \<Rightarrow> nat \<Rightarrow> HeadersMap option" where
  "parseHeaders headerText maxHeaders maxLineLength =
     parseHeaders_lines maxHeaders maxLineLength (splitCRLF headerText) HeadersMap_new"

section \<open>The streaming parser (parser.ts)\<close>

datatype MessageType = REQUEST | RESPONSE

datatype TransferEncoding =
  CONTENT_LENGTH | CHUNKED | IDENTITY | GZIP | DEFLATE | BR | CLOSE | UNKNOWN_ENCODING

datatype ParserState =
    IDLE | REQUEST_LINE | STATUS_LINE | HEADERS | BODY_CONTENT_LENGTH | BODY_CHUNKED
  | BODY_CHUNKED_SIZE | BODY_CHUNKED_DATA | BODY_CHUNKED_TRAILER | COMPLETE | ERROR

record ParserOptions =
  allowUnderscoreInHeaders :: bool
  enablePipelining :: bool
  inactivityTimeout :: nat
  maxBodySize :: nat
  maxChunks :: nat
  maxHeaderLineLength :: nat
  maxHeaders :: nat
  validateHeaderNames :: bool
  validateHeaderValues :: bool

definition DEFAULT_OPTIONS :: ParserOptions where
  "DEFAULT_OPTIONS =
     \<lparr>allowUnderscoreInHeaders = True, enablePipelining = False, inactivityTimeout = 30000,
      maxBodySize = 10 * 1024 * 1024, maxChunks = 10000, maxHeaderLineLength = 8192,
      maxHeaders = 256, validateHeaderNames = True, validateHeaderValues = True\<rparr>"

text \<open>
  A message as \<open>createCompleteMessage\<close> builds it.  The fields that the source fills from
  nullable parser fields (\<^verbatim>\<open>this.headers!\<close>, \<^verbatim>\<open>this.requestLine!\<close>,
  \<^verbatim>\<open>this.body?.length\<close>) are options.
\<close>

record HttpMessage =
  m_body :: bytes
  m_complete :: bool
  m_contentLength :: "nat option"
  m_headers :: "HeadersMap option"
  m_keepAlive :: bool
  m_requestLine :: "RequestLine option"
  m_statusLine :: "StatusLine option"
  m_transferEncoding :: TransferEncoding
  m_type :: MessageType

record HttpParser =
  options :: ParserOptions
  state :: ParserState
  buffer :: bytes
  bufferOffset :: nat
  messageType :: "MessageType option"
  requestLine :: "RequestLine option"
  statusLine :: "StatusLine option"
  headers :: "HeadersMap option"
  body :: "bytes option"
  bodyLength :: nat
  chunkSize :: nat
  chunkBytesRead :: nat
  totalChunks :: nat
  keepAlive :: bool

text \<open>
  The constructor; \<open>opts\<close> is the caller's options already merged over \<open>DEFAULT_OPTIONS\<close>.
\<close>

definition HttpParser_new :: "ParserOptions \<Rightarrow> HttpParser" where
  "HttpParser_new opts =
     \<lparr>options = opts, state = IDLE, buffer = [], bufferOffset = 0, messageType = None,
      requestLine = None, statusLine = None, headers = None, body = None, bodyLength = 0,
      chunkSize = 0, chunkBytesRead = 0, totalChunks = 0, keepAlive = True\<rparr>"

definition HttpParser_reset :: "bool \<Rightarrow> HttpParser \<Rightarrow> HttpParser" where
  "HttpParser_reset clearBuffer p =
     (let p1 = p\<lparr>state := IDLE\<rparr>;
          p2 = (if clearBuffer then p1\<lparr>buffer := [], bufferOffset := 0\<rparr> else p1)
      in p2\<lparr>messageType := None, requestLine := None, statusLine := None, headers := None,
            body := None, bodyLength := 0, chunkSize := 0, chunkBytesRead := 0, totalChunks := 0,
            keepAlive := True\<rparr>)"

text \<open>
  What a state handler returns.  The source's error object carries a code, a message, a
  position, the state and details; \<open>parse\<close> only tests that there is one, and the model
  keeps the code.
\<close>

record ParseStep =
  r_message :: "HttpMessage option"
  r_error :: "ParserErrorCode option"
  r_complete :: bool
  r_needsMoreData :: bool

definition stepMore :: ParseStep where
  "stepMore = \<lparr>r_message = None, r_error = None, r_complete = False, r_needsMoreData = True\<rparr>"

definition stepOn :: ParseStep where
  "stepOn = \<lparr>r_message = None, r_error = None, r_complete = False, r_needsMoreData = False\<rparr>"

definition stepError :: "ParserErrorCode \<Rightarrow> ParseStep" where
  "stepError c = \<lparr>r_message = None, r_error = Some c, r_complete = False, r_needsMoreData = False\<rparr>"

text \<open>\<^verbatim>\<open>this.buffer.length - this.bufferOffset\<close>, a signed difference.\<close>

definition remaining :: "HttpParser \<Rightarrow> int" where
  "remaining p = int (length (buffer p)) - int (bufferOffset p)"

definition getState :: "HttpParser \<Rightarrow> ParserState" where
  "getState p = state p"

definition getBufferedBytes :: "HttpParser \<Rightarrow> int" where
  "getBufferedBytes p = int (length (buffer p)) - int (bufferOffset p)"

definition appendBuffer :: "bytes \<Rightarrow> HttpParser \<Rightarrow> HttpParser" where
  "appendBuffer d p =
     (let p1 = (if bufferOffset p > 0
                then p\<lparr>buffer := sliceFrom (bufferOffset p) (buffer p), bufferOffset := 0\<rparr> else p)
      in if length (buffer p1) = 0 then p1\<lparr>buffer := d\<rparr> else p1\<lparr>buffer := buffer p1 @ d\<rparr>)"

definition compactBuffer :: "HttpParser \<Rightarrow> HttpParser" where
  "compactBuffer p =
     (if bufferOffset p > 0
      then p\<lparr>buffer := sliceFrom (bufferOffset p) (buffer p), bufferOffset := 0\<rparr> else p)"

definition appendToBody :: "bytes \<Rightarrow> HttpParser \<Rightarrow> HttpParser" where
  "appendToBody d p =
     (let p1 = (case body p of None \<Rightarrow> p\<lparr>body := Some d\<rparr> | Some b \<Rightarrow> p\<lparr>body := Some (b @ d)\<rparr>)
      in if length (case body p1 of None \<Rightarrow> [] | Some b \<Rightarrow> b) > maxBodySize (options p1)
         then p1\<lparr>state := ERROR\<rparr> else p1)"

definition createCompleteMessage :: "HttpParser \<Rightarrow> ParseStep \<times> HttpParser" where
  "createCompleteMessage p =
     (\<lparr>r_message = Some
         \<lparr>m_body = (case body p of None \<Rightarrow> [] | Some b \<Rightarrow> b),
          m_complete = True,
          m_contentLength = map_option length (body p),
          m_headers = headers p,
          m_keepAlive = keepAlive p,
          m_requestLine = (if messageType p = Some REQUEST then requestLine p else None),
          m_statusLine = (if messageType p = Some REQUEST then None else statusLine p),
          m_transferEncoding = CONTENT_LENGTH,
          m_type = (if messageType p = Some REQUEST then REQUEST else RESPONSE)\<rparr>,
       r_error = None, r_complete = True, r_needsMoreData = False\<rparr>, p)"

definition parseMessageStart :: "HttpParser \<Rightarrow> ParseStep \<times> HttpParser" where
  "parseMessageStart p =
     (if remaining p < 4 then (stepMore, p)
      else if byteAt (buffer p) (bufferOffset p) = Some (CHR 0x48)
            \<and> byteAt (buffer p) (bufferOffset p + 1) = Some (CHR 0x54)
            \<and> byteAt (buffer p) (bufferOffset p + 2) = Some (CHR 0x54)
            \<and> byteAt (buffer p) (bufferOffset p + 3) = Some (CHR 0x50)
      then (stepOn, p\<lparr>messageType := Some RESPONSE, state := STATUS_LINE\<rparr>)
      else (stepOn, p\<lparr>messageType := Some REQUEST, state := REQUEST_LINE\<rparr>))"

definition HttpParser_parseRequestLine :: "HttpParser \<Rightarrow> ParseStep \<times> HttpParser" where
  "HttpParser_parseRequestLine p =
     (let result = parseRequestLine (buffer p) (bufferOffset p) (length (buffer p)) in
      if rlr_needsMoreData result then (stepMore, p)
      else if rlr_error result \<noteq> None then (stepError INVALID_METHOD, p)
      else (stepOn, p\<lparr>requestLine := rlr_requestLine result,
                      bufferOffset := bufferOffset p + rlr_bytesConsumed result,
                      state := HEADERS\<rparr>))"

definition HttpParser_parseStatusLine :: "HttpParser \<Rightarrow> ParseStep \<times> HttpParser" where
  "HttpParser_parseStatusLine p =
     (let result = parseStatusLine (buffer p) (bufferOffset p) (length (buffer p)) in
      if slr_needsMoreData result then (stepMore, p)
      else if slr_error result \<noteq> None then (stepError INVALID_VERSION, p)
      else (stepOn, p\<lparr>statusLine := slr_statusLine result,
                      bufferOffset := bufferOffset p + slr_bytesConsumed result,
                      state := HEADERS\<rparr>))"

text \<open>
  \<^verbatim>\<open>if (s)\<close> on a \<^verbatim>\<open>string | undefined\<close> holds when \<open>s\<close> is present and not empty:
  \<open>truthy s\<close> is then the string, and \<open>None\<close> otherwise.
\<close>

definition truthy :: "string option \<Rightarrow> string option" where
  "truthy s = (case s of None \<Rightarrow> None | Some v \<Rightarrow> if v = [] then None else Some v)"

definition handleHeadersComplete :: "HeadersMap \<Rightarrow> HttpParser \<Rightarrow> ParseStep \<times> HttpParser" where
  "handleHeadersComplete hs p =
     (let p1 = p\<lparr>headers := Some hs\<rparr>;
          p2 = (case truthy (HeadersMap_get hs ''connection'') of
                  Some connection \<Rightarrow> p1\<lparr>keepAlive := (toLowerCase connection \<noteq> ''close'')\<rparr>
                | None \<Rightarrow> p1);
          p3 = (if messageType p2 = Some RESPONSE
                   \<and> (case statusLine p2 of None \<Rightarrow> False | Some sl \<Rightarrow> sl_version sl = ''HTTP/1.0'')
                then p2\<lparr>keepAlive := False\<rparr> else p2);
          transferEncoding = truthy (HeadersMap_get hs ''transfer-encoding'');
          contentLength = truthy (HeadersMap_get hs ''content-length'')
      in if (case transferEncoding of
               Some te \<Rightarrow> str_includes (toLowerCase te) ''chunked'' | None \<Rightarrow> False)
         then (stepOn, p3\<lparr>state := BODY_CHUNKED_SIZE\<rparr>)
         else case contentLength of
                Some cl \<Rightarrow>
                  (case parseContentLength cl of
                     Some len \<Rightarrow>
                       if len = 0 then createCompleteMessage (p3\<lparr>bodyLength := len\<rparr>)
                       else (stepOn, p3\<lparr>bodyLength := len, state := BODY_CONTENT_LENGTH\<rparr>)
                   | None \<Rightarrow> createCompleteMessage p3)
              | None \<Rightarrow> createCompleteMessage p3)"

definition isCRLFCRLFAt :: "bytes \<Rightarrow> nat \<Rightarrow> bool" where
  "isCRLFCRLFAt d i = (byteAt d i = Some CR \<and> byteAt d (i + 1) = Some LF
     \<and> byteAt d (i + 2) = Some CR \<and> byteAt d (i + 3) = Some LF)"

definition invalidHeader :: "ParserOptions \<Rightarrow> string \<times> string \<Rightarrow> bool" where
  "invalidHeader opts nv =
     ((validateHeaderNames opts \<and> \<not> isValidHeaderName (fst nv) (allowUnderscoreInHeaders opts))
      \<or> (validateHeaderValues opts \<and> \<not> isValidHeaderValue (snd nv)))"

definition HttpParser_parseHeaders :: "HttpParser \<Rightarrow> ParseStep \<times> HttpParser" where
  "HttpParser_parseHeaders p =
     (let bufferLength = length (buffer p) in
      case findFirst (isCRLFCRLFAt (buffer p)) (bufferOffset p) (bufferLength - 3) of
        None \<Rightarrow>
          if findFirst (isCRLFAt (buffer p)) (bufferOffset p) (bufferLength - 1) \<noteq> None
             \<and> remaining p > int (maxHeaderLineLength (options p))
          then (stepError HEADER_VALUE_TOO_LONG, p)
          else if remaining p = 2 \<and> isCRLFAt (buffer p) (bufferOffset p)
          then handleHeadersComplete HeadersMap_new (p\<lparr>bufferOffset := bufferLength\<rparr>)
          else (stepMore, p)
      | Some headerEnd \<Rightarrow>
          (case parseHeaders (decodeUtf8 (slice (bufferOffset p) headerEnd (buffer p)))
                  (maxHeaders (options p)) (maxHeaderLineLength (options p)) of
             None \<Rightarrow> (stepError INVALID_HEADER, p)
           | Some parsedHeaders \<Rightarrow>
               if list_ex (invalidHeader (options p)) (HeadersMap_entries parsedHeaders)
               then (stepError INVALID_HEADER, p)
               else handleHeadersComplete parsedHeaders
                      (p\<lparr>headers := Some parsedHeaders, bufferOffset := headerEnd + 4\<rparr>)))"

definition parseBodyContentLength :: "HttpParser \<Rightarrow> ParseStep \<times> HttpParser" where
  "parseBodyContentLength p =
     (if remaining p < int (bodyLength p)
      then (stepMore, (appendToBody (sliceFrom (bufferOffset p) (buffer p)) p)
                        \<lparr>bufferOffset := length (buffer p)\<rparr>)
      else createCompleteMessage
             ((appendToBody (slice (bufferOffset p) (bufferOffset p + bodyLength p) (buffer p)) p)
                \<lparr>bufferOffset := bufferOffset p + bodyLength p\<rparr>))"

definition parseChunkedSize :: "HttpParser \<Rightarrow> ParseStep \<times> HttpParser" where
  "parseChunkedSize p =
     (case findFirst (isCRLFAt (buffer p)) (bufferOffset p) (length (buffer p) - 1) of
        None \<Rightarrow> (stepMore, p)
      | Some lineEnd \<Rightarrow>
          let chunkSizeLine = decodeUtf8 (slice (bufferOffset p) lineEnd (buffer p));
              sizeStr = trim (splitFirst (CHR '';'') chunkSizeLine)
          in case parseChunkSize sizeStr (maxBodySize (options p)) of
               None \<Rightarrow> (stepError INVALID_CHUNK_SIZE, p)
             | Some sz \<Rightarrow>
                 let p1 = p\<lparr>chunkSize := sz, chunkBytesRead := 0, bufferOffset := lineEnd + 2\<rparr> in
                 if sz = 0 then (stepOn, p1\<lparr>state := BODY_CHUNKED_TRAILER\<rparr>)
                 else let p2 = p1\<lparr>totalChunks := totalChunks p1 + 1\<rparr> in
                      if totalChunks p2 > maxChunks (options p2) then (stepError BODY_TOO_LARGE, p2)
                      else (stepOn, p2\<lparr>state := BODY_CHUNKED_DATA\<rparr>))"

text \<open>
  \<open>chunkBytesRead\<close> never exceeds \<open>chunkSize\<close> (it is reset with it and grows exactly to
  it), so \<open>toRead\<close> is a natural number.
\<close>

definition parseChunkedData :: "HttpParser \<Rightarrow> ParseStep \<times> HttpParser" where
  "parseChunkedData p =
     (let toRead = chunkSize p - chunkBytesRead p in
      if remaining p < int toRead + 2 then
        (if remaining p \<ge> int toRead
         then (stepMore,
               (appendToBody (slice (bufferOffset p) (bufferOffset p + toRead) (buffer p)) p)
                 \<lparr>chunkBytesRead := chunkBytesRead p + toRead,
                  bufferOffset := bufferOffset p + toRead\<rparr>)
         else (stepMore, (appendToBody (sliceFrom (bufferOffset p) (buffer p)) p)
                           \<lparr>bufferOffset := length (buffer p)\<rparr>))
      else
        let p1 = (appendToBody (slice (bufferOffset p) (bufferOffset p + toRead) (buffer p)) p)
                   \<lparr>bufferOffset := bufferOffset p + toRead\<rparr>;
            p2 = (if isCRLFAt (buffer p1) (bufferOffset p1)
                  then p1\<lparr>bufferOffset := bufferOffset p1 + 2\<rparr> else p1)
        in (stepOn, p2\<lparr>state := BODY_CHUNKED_SIZE\<rparr>))"

definition parseChunkedTrailer :: "HttpParser \<Rightarrow> ParseStep \<times> HttpParser" where
  "parseChunkedTrailer p =
     (let bufferLength = length (buffer p) in
      case findFirst (isCRLFCRLFAt (buffer p)) (bufferOffset p) (bufferLength - 3) of
        Some i \<Rightarrow> createCompleteMessage (p\<lparr>bufferOffset := i + 4\<rparr>)
      | None \<Rightarrow>
          if bufferLength \<ge> 2 \<and> isCRLFAt (buffer p) (bufferLength - 2)
          then createCompleteMessage (p\<lparr>bufferOffset := bufferLength\<rparr>)
          else (stepMore, p))"

definition parseNext :: "HttpParser \<Rightarrow> ParseStep \<times> HttpParser" where
  "parseNext p =
     (case state p of
        IDLE \<Rightarrow> parseMessageStart p
      | REQUEST_LINE \<Rightarrow> HttpParser_parseRequestLine p
      | STATUS_LINE \<Rightarrow> HttpParser_parseStatusLine p
      | HEADERS \<Rightarrow> HttpParser_parseHeaders p
      | BODY_CONTENT_LENGTH \<Rightarrow> parseBodyContentLength p
      | BODY_CHUNKED_SIZE \<Rightarrow> parseChunkedSize p
      | BODY_CHUNKED_DATA \<Rightarrow> parseChunkedData p
      | BODY_CHUNKED_TRAILER \<Rightarrow> parseChunkedTrailer p
      | COMPLETE \<Rightarrow> (\<lparr>r_message = None, r_error = None, r_complete = True, r_needsMoreData = False\<rparr>, p)
      | ERROR \<Rightarrow> (stepError UNKNOWN, p)
      | BODY_CHUNKED \<Rightarrow> (stepError UNKNOWN, p))"

text \<open>
  One turn of the \<^verbatim>\<open>while\<close> loop of \<open>parse\<close> after \<open>parseNext\<close>: the state the loop goes
  on with, the messages so far, and whether the loop breaks.
\<close>

definition afterStep ::
  "ParseStep \<times> HttpParser \<Rightarrow> HttpMessage option list \<Rightarrow> (HttpParser \<times> HttpMessage option list) \<times> bool" where
  "afterStep rp messages =
     (let result = fst rp; p = snd rp in
      if r_error result \<noteq> None then ((p\<lparr>state := ERROR\<rparr>, messages), True)
      else let pm = (if r_complete result
                     then (HttpParser_reset False (compactBuffer p), messages @ [r_message result])
                     else (p, messages))
           in (pm, r_needsMoreData result))"

subsection \<open>The loop of \<open>parse\<close> terminates\<close>

text \<open>
  Every turn of the loop that does not break either consumes buffered bytes or moves to
  a state of lower rank; \<open>unread\<close> is the number of buffered bytes after the offset.
\<close>

definition unread :: "HttpParser \<Rightarrow> nat" where
  "unread p = length (buffer p) - bufferOffset p"

fun stateRank :: "ParserState \<Rightarrow> nat" where
  "stateRank BODY_CHUNKED_SIZE = 0"
| "stateRank BODY_CHUNKED_DATA = 1"
| "stateRank HEADERS = 2"
| "stateRank REQUEST_LINE = 3"
| "stateRank STATUS_LINE = 3"
| "stateRank IDLE = 4"
| "stateRank BODY_CONTENT_LENGTH = 5"
| "stateRank BODY_CHUNKED_TRAILER = 5"
| "stateRank COMPLETE = 5"
| "stateRank ERROR = 0"
| "stateRank BODY_CHUNKED = 0"

definition progress :: "HttpParser \<Rightarrow> ParseStep \<times> HttpParser \<Rightarrow> bool" where
  "progress p rp \<longleftrightarrow>
     (r_error (fst rp) = None \<and> \<not> r_needsMoreData (fst rp) \<longrightarrow>
        unread (snd rp) < unread p
        \<or> (unread (snd rp) \<le> unread p
            \<and> stateRank (if r_complete (fst rp) then IDLE else state (snd rp)) < stateRank (state p)))"

lemma findFirst_Some: "findFirst P s e = Some i \<Longrightarrow> s \<le> i \<and> i < e \<and> P i"
  by (auto simp: findFirst_def find_Some_iff)

lemma appendToBody_buffer [simp]:
  "buffer (appendToBody d p) = buffer p" "bufferOffset (appendToBody d p) = bufferOffset p"
  by (simp_all add: appendToBody_def Let_def split: option.splits)

lemma createCompleteMessage_step [simp]:
  "snd (createCompleteMessage p) = p"
  "r_complete (fst (createCompleteMessage p))"
  "r_error (fst (createCompleteMessage p)) = None"
  "\<not> r_needsMoreData (fst (createCompleteMessage p))"
  by (simp_all add: createCompleteMessage_def)

lemma step_simps [simp]:
  "r_error stepMore = None" "r_needsMoreData stepMore" "\<not> r_complete stepMore" "r_message stepMore = None"
  "r_error stepOn = None" "\<not> r_needsMoreData stepOn" "\<not> r_complete stepOn" "r_message stepOn = None"
  "r_error (stepError c) = Some c" "\<not> r_needsMoreData (stepError c)" "\<not> r_complete (stepError c)" "r_message (stepError c) = None"
  by (simp_all add: stepMore_def stepOn_def stepError_def)

lemma handleHeadersComplete_buffer [simp]:
  "buffer (snd (handleHeadersComplete hs p)) = buffer p"
  "bufferOffset (snd (handleHeadersComplete hs p)) = bufferOffset p"
  by (simp_all add: handleHeadersComplete_def Let_def split: option.splits)

lemma progress_parseMessageStart: "state p = IDLE \<Longrightarrow> progress p (parseMessageStart p)"
  by (simp add: progress_def parseMessageStart_def unread_def)

lemma progress_parseRequestLine: "state p = REQUEST_LINE \<Longrightarrow> progress p (HttpParser_parseRequestLine p)"
  by (simp add: progress_def HttpParser_parseRequestLine_def unread_def Let_def; arith)

lemma progress_parseStatusLine: "state p = STATUS_LINE \<Longrightarrow> progress p (HttpParser_parseStatusLine p)"
  by (simp add: progress_def HttpParser_parseStatusLine_def unread_def Let_def; arith)

lemma progress_parseHeaders: "progress p (HttpParser_parseHeaders p)"
proof (cases "findFirst (isCRLFCRLFAt (buffer p)) (bufferOffset p) (length (buffer p) - 3)")
  case None
  then show ?thesis
    by (auto simp: progress_def HttpParser_parseHeaders_def unread_def Let_def remaining_def)
next
  case (Some he)
  then have "bufferOffset p \<le> he \<and> he < length (buffer p) - 3"
    by (auto dest: findFirst_Some)
  then have "length (buffer p) - (he + 4) < length (buffer p) - bufferOffset p" by arith
  then show ?thesis using Some
    by (auto simp: progress_def HttpParser_parseHeaders_def unread_def Let_def split: option.splits)
qed

lemma progress_parseBodyContentLength:
  "state p = BODY_CONTENT_LENGTH \<Longrightarrow> progress p (parseBodyContentLength p)"
  by (simp add: progress_def parseBodyContentLength_def unread_def; arith)

lemma progress_parseChunkedSize: "progress p (parseChunkedSize p)"
proof (cases "findFirst (isCRLFAt (buffer p)) (bufferOffset p) (length (buffer p) - 1)")
  case None
  then show ?thesis by (simp add: progress_def parseChunkedSize_def)
next
  case (Some le)
  then have "bufferOffset p \<le> le \<and> le < length (buffer p) - 1"
    by (auto dest: findFirst_Some)
  then have "length (buffer p) - (le + 2) < length (buffer p) - bufferOffset p" by arith
  then show ?thesis using Some
    by (auto simp: progress_def parseChunkedSize_def unread_def Let_def split: option.splits)
qed

lemma progress_parseChunkedData:
  "state p = BODY_CHUNKED_DATA \<Longrightarrow> progress p (parseChunkedData p)"
  by (auto simp: progress_def parseChunkedData_def unread_def Let_def)

lemma progress_parseChunkedTrailer:
  "state p = BODY_CHUNKED_TRAILER \<Longrightarrow> progress p (parseChunkedTrailer p)"
  by (auto simp: progress_def parseChunkedTrailer_def unread_def Let_def split: option.splits
      dest!: findFirst_Some)

lemma progress_parseNext: "progress p (parseNext p)"
  unfolding parseNext_def
  by (cases "state p")
     (simp_all add: progress_parseMessageStart progress_parseRequestLine progress_parseStatusLine
        progress_parseHeaders progress_parseBodyContentLength progress_parseChunkedSize
        progress_parseChunkedData progress_parseChunkedTrailer, simp_all add: progress_def)

lemma unread_reset_compact [simp]:
  "unread (HttpParser_reset False (compactBuffer p)) = unread p"
  "state (HttpParser_reset b p) = IDLE"
  by (simp_all add: HttpParser_reset_def compactBuffer_def unread_def sliceFrom_def Let_def)

lemma afterStep_progress:
  assumes "afterStep (parseNext p) messages = ((p', messages'), False)"
  shows "unread p' < unread p \<or> (unread p' = unread p \<and> stateRank (state p') < stateRank (state p))"
  using progress_parseNext[of p] assms
  by (auto simp: afterStep_def progress_def Let_def split: if_splits)

text \<open>
  The \<^verbatim>\<open>while (this.state !== ParserState.ERROR)\<close> loop of \<open>parse\<close>, with the messages
  pushed so far.
\<close>

function parse_loop :: "HttpParser \<Rightarrow> HttpMessage option list \<Rightarrow> HttpParser \<times> HttpMessage option list" where
  "parse_loop p messages =
     (if state p = ERROR then (p, messages)
      else let (pm, stop) = afterStep (parseNext p) messages in
           if stop then pm else parse_loop (fst pm) (snd pm))"
  by pat_completeness auto
termination
proof (relation "measures [\<lambda>(p, ms). unread p, \<lambda>(p, ms). stateRank (state p)]", goal_cases)
  case 1
  then show ?case by simp
next
  case (2 p messages x xa y)
  then have "afterStep (parseNext p) messages = ((fst xa, snd xa), False)" by simp
  from afterStep_progress[OF this] show ?case by (cases xa) auto
qed

declare parse_loop.simps [simp del]

definition HttpParser_parse :: "bytes \<Rightarrow> HttpParser \<Rightarrow> HttpMessage option list \<times> HttpParser" where
  "HttpParser_parse d p = (let (p', messages) = parse_loop (appendBuffer d p) [] in (messages, p'))"


text \<open>
  The public methods a caller can invoke on a parser, and a sequence of such calls with
  the messages each \<open>parse\<close> returned, in order.
\<close>

datatype parser_call = Parse bytes | Reset bool

fun run_calls :: "HttpParser \<Rightarrow> parser_call list \<Rightarrow> HttpMessage option list \<times> HttpParser" where
  "run_calls p [] = ([], p)"
| "run_calls p (Parse d # cs) =
     (let (ms, p') = HttpParser_parse d p; (ms', p'') = run_calls p' cs in (ms @ ms', p''))"
| "run_calls p (Reset clearBuffer # cs) = run_calls (HttpParser_reset clearBuffer p) cs"


section \<open>Properties of the header container\<close>




















lemma map_of_distinct_mem: "distinct (map fst hs) \<Longrightarrow> p \<in> set hs \<Longrightarrow> map_of hs (fst p) = Some (snd p)"
  by (cases p) simp













section \<open>Invariants of the streaming parser\<close>

text \<open>
  What holds of every message the parser emits, and of the parser in every state of the
  loop, from the constructor on.  \<open>connectionClose\<close> and \<open>http10\<close> read the two inputs
  of the keep-alive decision off a header container and a status line.
\<close>

definition connectionClose :: "HeadersMap option \<Rightarrow> bool" where
  "connectionClose ho =
     (case ho of
        None \<Rightarrow> False
      | Some hs \<Rightarrow> (case truthy (HeadersMap_get hs ''connection'') of
                     Some c \<Rightarrow> toLowerCase c = ''close'' | None \<Rightarrow> False))"

definition http10 :: "StatusLine option \<Rightarrow> bool" where
  "http10 slo = (case slo of None \<Rightarrow> False | Some sl \<Rightarrow> sl_version sl = ''HTTP/1.0'')"

definition message_ok :: "HttpMessage \<Rightarrow> bool" where
  "message_ok m \<longleftrightarrow>
     m_transferEncoding m = CONTENT_LENGTH
     \<and> (m_contentLength m = None \<and> m_body m = [] \<or> m_contentLength m = Some (length (m_body m)))
     \<and> m_keepAlive m = (\<not> connectionClose (m_headers m) \<and> \<not> (m_type m = RESPONSE \<and> http10 (m_statusLine m)))"

definition framed :: "HttpParser \<Rightarrow> bool" where
  "framed p \<longleftrightarrow> messageType p \<noteq> None
     \<and> keepAlive p = (\<not> connectionClose (headers p) \<and> \<not> (messageType p = Some RESPONSE \<and> http10 (statusLine p)))"

definition unframed :: "HttpParser \<Rightarrow> bool" where
  "unframed p \<longleftrightarrow> keepAlive p \<and> body p = None"

fun parser_inv :: "HttpParser \<Rightarrow> bool" where
  "parser_inv p =
     (case state p of
        IDLE \<Rightarrow> unframed p
      | REQUEST_LINE \<Rightarrow> unframed p \<and> messageType p \<noteq> None
      | STATUS_LINE \<Rightarrow> unframed p \<and> messageType p \<noteq> None
      | HEADERS \<Rightarrow> unframed p \<and> messageType p \<noteq> None
      | BODY_CONTENT_LENGTH \<Rightarrow> framed p
      | BODY_CHUNKED_SIZE \<Rightarrow> framed p
      | BODY_CHUNKED_DATA \<Rightarrow> framed p
      | BODY_CHUNKED_TRAILER \<Rightarrow> framed p
      | ERROR \<Rightarrow> True
      | COMPLETE \<Rightarrow> False
      | BODY_CHUNKED \<Rightarrow> False)"

definition step_ok :: "ParseStep \<times> HttpParser \<Rightarrow> bool" where
  "step_ok rp \<longleftrightarrow>
     (r_complete (fst rp) \<longrightarrow> (\<exists>m. r_message (fst rp) = Some m \<and> message_ok m))
     \<and> (r_error (fst rp) = None \<and> \<not> r_complete (fst rp) \<longrightarrow> parser_inv (snd rp))"

declare parser_inv.simps [simp del]

lemma createCompleteMessage_ok:
  assumes "framed p"
  shows "step_ok (createCompleteMessage p)"
proof -
  obtain t where t: "messageType p = Some t"
    using assms by (auto simp: framed_def)
  show ?thesis
    using assms t
    by (cases t; cases "body p")
       (simp_all add: step_ok_def createCompleteMessage_def framed_def message_ok_def http10_def)
qed

lemma framed_appendToBody [simp]: "framed (appendToBody d p) = framed p"
  by (simp add: framed_def appendToBody_def Let_def split: option.splits)

lemma framed_updates [simp]:
  "framed (p\<lparr>bufferOffset := off\<rparr>) = framed p"
  "framed (p\<lparr>state := st\<rparr>) = framed p"
  "framed (p\<lparr>chunkSize := a\<rparr>) = framed p"
  "framed (p\<lparr>chunkBytesRead := b\<rparr>) = framed p"
  "framed (p\<lparr>totalChunks := c\<rparr>) = framed p"
  "framed (p\<lparr>bodyLength := e\<rparr>) = framed p"
  by (simp_all add: framed_def)

lemma inv_framedI:
  "framed q \<Longrightarrow>
   state q \<in> {BODY_CONTENT_LENGTH, BODY_CHUNKED_SIZE, BODY_CHUNKED_DATA, BODY_CHUNKED_TRAILER, ERROR} \<Longrightarrow>
   parser_inv q"
  by (auto simp: parser_inv.simps)

lemma inv_framedD:
  "parser_inv p \<Longrightarrow>
   state p \<in> {BODY_CONTENT_LENGTH, BODY_CHUNKED_SIZE, BODY_CHUNKED_DATA, BODY_CHUNKED_TRAILER} \<Longrightarrow>
   framed p"
  by (auto simp: parser_inv.simps)

lemma state_appendToBody: "state (appendToBody d p) = state p \<or> state (appendToBody d p) = ERROR"
  by (simp add: appendToBody_def Let_def split: option.splits)

lemma inv_appendToBody:
  assumes "framed p"
    "state p \<in> {BODY_CONTENT_LENGTH, BODY_CHUNKED_SIZE, BODY_CHUNKED_DATA, BODY_CHUNKED_TRAILER}"
  shows "parser_inv ((appendToBody d p)\<lparr>bufferOffset := off\<rparr>)"
    and "parser_inv ((appendToBody d p)\<lparr>chunkBytesRead := n, bufferOffset := off\<rparr>)"
  using assms state_appendToBody[of d p]
  by (auto intro!: inv_framedI)

definition isChunked :: "HeadersMap \<Rightarrow> bool" where
  "isChunked hs =
     (case truthy (HeadersMap_get hs ''transfer-encoding'') of
        Some te \<Rightarrow> str_includes (toLowerCase te) ''chunked'' | None \<Rightarrow> False)"

definition declaredLength :: "HeadersMap \<Rightarrow> nat option" where
  "declaredLength hs =
     (case truthy (HeadersMap_get hs ''content-length'') of
        Some cl \<Rightarrow> parseContentLength cl | None \<Rightarrow> None)"

definition keepAliveDecided :: "HeadersMap \<Rightarrow> HttpParser \<Rightarrow> HttpParser" where
  "keepAliveDecided hs p =
     (let p1 = p\<lparr>headers := Some hs\<rparr>;
          p2 = (case truthy (HeadersMap_get hs ''connection'') of
                  Some connection \<Rightarrow> p1\<lparr>keepAlive := (toLowerCase connection \<noteq> ''close'')\<rparr>
                | None \<Rightarrow> p1)
      in if messageType p2 = Some RESPONSE
            \<and> (case statusLine p2 of None \<Rightarrow> False | Some sl \<Rightarrow> sl_version sl = ''HTTP/1.0'')
         then p2\<lparr>keepAlive := False\<rparr> else p2)"

lemma handleHeadersComplete_cases:
  "handleHeadersComplete hs p =
     (if isChunked hs then (stepOn, (keepAliveDecided hs p)\<lparr>state := BODY_CHUNKED_SIZE\<rparr>)
      else case declaredLength hs of
             Some len \<Rightarrow>
               if len = 0 then createCompleteMessage ((keepAliveDecided hs p)\<lparr>bodyLength := len\<rparr>)
               else (stepOn, (keepAliveDecided hs p)\<lparr>bodyLength := len, state := BODY_CONTENT_LENGTH\<rparr>)
           | None \<Rightarrow> createCompleteMessage (keepAliveDecided hs p))"
  by (simp add: handleHeadersComplete_def keepAliveDecided_def isChunked_def declaredLength_def Let_def
      split: option.splits)

lemma keepAliveDecided_fields [simp]:
  "body (keepAliveDecided hs p) = body p"
  "headers (keepAliveDecided hs p) = Some hs"
  "messageType (keepAliveDecided hs p) = messageType p"
  "statusLine (keepAliveDecided hs p) = statusLine p"
  "requestLine (keepAliveDecided hs p) = requestLine p"
  "buffer (keepAliveDecided hs p) = buffer p"
  "bufferOffset (keepAliveDecided hs p) = bufferOffset p"
  "bodyLength (keepAliveDecided hs p) = bodyLength p"
  "options (keepAliveDecided hs p) = options p"
  by (simp_all add: keepAliveDecided_def Let_def split: option.splits)

lemma keepAliveDecided_framed:
  "keepAlive p \<Longrightarrow> messageType p \<noteq> None \<Longrightarrow> framed (keepAliveDecided hs p)"
  by (auto simp: framed_def keepAliveDecided_def Let_def connectionClose_def http10_def
      split: option.splits)

lemma handleHeadersComplete_ok:
  assumes "unframed p" "messageType p \<noteq> None"
  shows "step_ok (handleHeadersComplete hs p)"
proof -
  have f: "framed (keepAliveDecided hs p)"
    using assms by (simp add: keepAliveDecided_framed unframed_def)
  then have "step_ok (stepOn, (keepAliveDecided hs p)\<lparr>state := BODY_CHUNKED_SIZE\<rparr>)"
     "\<And>n. step_ok (stepOn, (keepAliveDecided hs p)\<lparr>bodyLength := n, state := BODY_CONTENT_LENGTH\<rparr>)"
    by (simp_all add: step_ok_def parser_inv.simps)
  with f show ?thesis
    unfolding handleHeadersComplete_cases
    by (simp add: createCompleteMessage_ok split: option.splits)
qed

lemma step_ok_simple [simp]:
  "step_ok (stepError c, p)"
  "step_ok (stepMore, p) = parser_inv p"
  "step_ok (stepOn, p) = parser_inv p"
  by (simp_all add: step_ok_def)

lemma ok_parseMessageStart: "parser_inv p \<Longrightarrow> state p = IDLE \<Longrightarrow> step_ok (parseMessageStart p)"
  by (simp add: parseMessageStart_def parser_inv.simps unframed_def)

lemma ok_parseRequestLine:
  "parser_inv p \<Longrightarrow> state p = REQUEST_LINE \<Longrightarrow> step_ok (HttpParser_parseRequestLine p)"
  by (simp add: HttpParser_parseRequestLine_def parser_inv.simps unframed_def Let_def)

lemma ok_parseStatusLine:
  "parser_inv p \<Longrightarrow> state p = STATUS_LINE \<Longrightarrow> step_ok (HttpParser_parseStatusLine p)"
  by (simp add: HttpParser_parseStatusLine_def parser_inv.simps unframed_def Let_def)

lemma ok_parseHeaders:
  assumes "parser_inv p" "state p = HEADERS"
  shows "step_ok (HttpParser_parseHeaders p)"
proof -
  have u: "unframed p" "messageType p \<noteq> None"
    using assms by (simp_all add: parser_inv.simps)
  have e: "step_ok (handleHeadersComplete HeadersMap_new (p\<lparr>bufferOffset := length (buffer p)\<rparr>))"
    using u by (intro handleHeadersComplete_ok) (simp_all add: unframed_def)
  have f: "step_ok (handleHeadersComplete hs (p\<lparr>headers := Some hs, bufferOffset := he + 4\<rparr>))" for hs he
    using u by (intro handleHeadersComplete_ok) (simp_all add: unframed_def)
  show ?thesis
    unfolding HttpParser_parseHeaders_def Let_def
    using assms(1) e f by (simp split: option.splits)
qed

lemma ok_parseBodyContentLength:
  assumes "parser_inv p" "state p = BODY_CONTENT_LENGTH"
  shows "step_ok (parseBodyContentLength p)"
proof -
  have f: "framed p" using assms by (simp add: inv_framedD)
  show ?thesis
    using f assms(2) inv_appendToBody(1)[of p]
    by (simp add: parseBodyContentLength_def createCompleteMessage_ok)
qed

lemma ok_parseChunkedSize:
  assumes "parser_inv p" "state p = BODY_CHUNKED_SIZE"
  shows "step_ok (parseChunkedSize p)"
proof -
  have f: "framed p" using assms by (simp add: inv_framedD)
  then have "\<And>a b c d. parser_inv (p\<lparr>chunkSize := a, chunkBytesRead := b, bufferOffset := c, state := BODY_CHUNKED_TRAILER\<rparr>)"
    "\<And>a b c d. parser_inv (p\<lparr>chunkSize := a, chunkBytesRead := b, bufferOffset := c, totalChunks := d, state := BODY_CHUNKED_DATA\<rparr>)"
    by (simp_all add: inv_framedI)
  then show ?thesis
    using assms by (simp add: parseChunkedSize_def Let_def split: option.splits)
qed

lemma ok_parseChunkedData:
  assumes "parser_inv p" "state p = BODY_CHUNKED_DATA"
  shows "step_ok (parseChunkedData p)"
proof -
  have f: "framed p" using assms by (simp add: inv_framedD)
  have "\<And>d off. parser_inv ((appendToBody d p)\<lparr>bufferOffset := off, state := BODY_CHUNKED_SIZE\<rparr>)"
    using f by (simp add: inv_framedI)
  then show ?thesis
    using f assms(2) inv_appendToBody[of p]
    by (simp add: parseChunkedData_def Let_def)
qed

lemma ok_parseChunkedTrailer:
  assumes "parser_inv p" "state p = BODY_CHUNKED_TRAILER"
  shows "step_ok (parseChunkedTrailer p)"
proof -
  have f: "framed p" using assms by (simp add: inv_framedD)
  then show ?thesis
    using assms(1)
    by (simp add: parseChunkedTrailer_def Let_def createCompleteMessage_ok split: option.splits)
qed

lemma ok_parseNext: "parser_inv p \<Longrightarrow> step_ok (parseNext p)"
  unfolding parseNext_def
  by (cases "state p")
     (simp_all add: ok_parseMessageStart ok_parseRequestLine ok_parseStatusLine ok_parseHeaders
        ok_parseBodyContentLength ok_parseChunkedSize ok_parseChunkedData ok_parseChunkedTrailer,
      simp_all add: parser_inv.simps)

definition emitted_ok :: "HttpMessage option \<Rightarrow> bool" where
  "emitted_ok e = (case e of None \<Rightarrow> False | Some m \<Rightarrow> message_ok m)"

lemma inv_reset [simp]: "parser_inv (HttpParser_reset b p)"
  by (simp add: HttpParser_reset_def parser_inv.simps unframed_def Let_def)

lemma inv_ERROR [simp]: "parser_inv (p\<lparr>state := ERROR\<rparr>)"
  by (simp add: parser_inv.simps)

lemma ok_afterStep:
  assumes "parser_inv p" "list_all emitted_ok ms"
  shows "parser_inv (fst (fst (afterStep (parseNext p) ms)))
       \<and> list_all emitted_ok (snd (fst (afterStep (parseNext p) ms)))"
  using ok_parseNext[OF assms(1)] assms(2)
  by (auto simp: afterStep_def step_ok_def Let_def emitted_ok_def)

lemma ok_parse_loop:
  "parser_inv p \<Longrightarrow> list_all emitted_ok ms \<Longrightarrow>
   parser_inv (fst (parse_loop p ms)) \<and> list_all emitted_ok (snd (parse_loop p ms))"
proof (induction p ms rule: parse_loop.induct)
  case (1 p messages)
  show ?case
  proof (cases "state p = ERROR")
    case True
    then show ?thesis using 1 by (simp add: parse_loop.simps[of p messages])
  next
    case False
    obtain pm stop where a: "afterStep (parseNext p) messages = (pm, stop)"
      by (cases "afterStep (parseNext p) messages") auto
    have k: "parser_inv (fst pm) \<and> list_all emitted_ok (snd pm)"
      using ok_afterStep[OF "1.prems"] a by simp
    show ?thesis
    proof (cases stop)
      case True
      then show ?thesis using False a k by (simp add: parse_loop.simps[of p messages])
    next
      case nstop: False
      have "parser_inv (fst (parse_loop (fst pm) (snd pm))) \<and> list_all emitted_ok (snd (parse_loop (fst pm) (snd pm)))"
        using "1.IH"[OF False a[symmetric] refl nstop] k by simp
      then show ?thesis using False a nstop by (simp add: parse_loop.simps[of p messages])
    qed
  qed
qed

lemma inv_buffer_update [simp]:
  "parser_inv (p\<lparr>buffer := b\<rparr>) = parser_inv p"
  "parser_inv (p\<lparr>buffer := b, bufferOffset := off\<rparr>) = parser_inv p"
  by (cases "state p"; simp add: parser_inv.simps unframed_def framed_def)+

lemma inv_appendBuffer [simp]: "parser_inv (appendBuffer d p) = parser_inv p"
  by (simp add: appendBuffer_def Let_def)

lemma ok_parse:
  "parser_inv p \<Longrightarrow> list_all emitted_ok (fst (HttpParser_parse d p)) \<and> parser_inv (snd (HttpParser_parse d p))"
  using ok_parse_loop[of "appendBuffer d p" "[]"]
  by (auto simp: HttpParser_parse_def split: prod.splits)

lemma ok_run_calls:
  "parser_inv p \<Longrightarrow> list_all emitted_ok (fst (run_calls p cs)) \<and> parser_inv (snd (run_calls p cs))"
proof (induction cs arbitrary: p)
  case Nil
  then show ?case by simp
next
  case (Cons c cs)
  show ?case
  proof (cases c)
    case (Parse d)
    then show ?thesis
      using ok_parse[OF Cons.prems, of d] Cons.IH[of "snd (HttpParser_parse d p)"]
      by (auto split: prod.splits)
  next
    case (Reset b)
    then show ?thesis using Cons.IH[of "HttpParser_reset b p"] by simp
  qed
qed

lemma inv_new [simp]: "parser_inv (HttpParser_new opts)"
  by (simp add: HttpParser_new_def parser_inv.simps unframed_def)


section \<open>Evaluating the parser on concrete inputs\<close>

lemma findFirst_rec:
  "findFirst P s e = (if s < e then (if P s then Some s else findFirst P (s + 1) e) else None)"
  by (simp add: findFirst_def upt_rec[of s e])

lemmas eval_defs =
  HttpParser_parse_def appendBuffer_def compactBuffer_def afterStep_def parseNext_def
  parseMessageStart_def HttpParser_parseRequestLine_def HttpParser_parseStatusLine_def
  HttpParser_parseHeaders_def handleHeadersComplete_def parseBodyContentLength_def
  parseChunkedSize_def parseChunkedData_def parseChunkedTrailer_def appendToBody_def
  createCompleteMessage_def HttpParser_reset_def HttpParser_new_def DEFAULT_OPTIONS_def
  remaining_def stepMore_def stepOn_def stepError_def
  parseRequestLine_def parseStatusLine_def requestLineError_def requestLineMore_def
  statusLineError_def statusLineMore_def
  findFirst_rec isCRLFAt_def isCRLFCRLFAt_def isSpaceAt_def byteAt_def slice_def sliceFrom_def
  decodeUtf8_def isValidMethod_def isValidTarget_def isValidVersion_def isValidStatusCode_def
  standardMethods_def separatorChars_def startsWith_def
  parseHeaders_def parseHeaderLine_def trim_def isWhiteSpace_def charCode_def
  HeadersMap_new_def HeadersMap_append_def HeadersMap_get_def HeadersMap_entries_def
  Map_has_def Map_get_def totalEntries_def toLowerCase_def lowerChar_def truthy_def
  invalidHeader_def isValidHeaderName_def isValidHeaderValue_def
  parseChunkSize_def parseInt_def stripSign_def isDigitIn_def
  digitVal_def digitsValue_def splitFirst_def
  Let_def char_of_def bit_Suc_0_iff

lemma eval_bare_get:
  "HttpParser_parse (''GET / HTTP/1.1'' @ CRLF @ CRLF) (HttpParser_new DEFAULT_OPTIONS) =
     ([Some \<lparr>m_body = [], m_complete = True, m_contentLength = None,
             m_headers = Some HeadersMap_new, m_keepAlive = True,
             m_requestLine = Some \<lparr>rl_method = ''GET'', rl_target = ''/'', rl_version = ''HTTP/1.1''\<rparr>,
             m_statusLine = None, m_transferEncoding = CONTENT_LENGTH, m_type = REQUEST\<rparr>],
      HttpParser_new DEFAULT_OPTIONS)"
  apply (simp add: HttpParser_parse_def appendBuffer_def HttpParser_new_def DEFAULT_OPTIONS_def)
  apply ((subst parse_loop.simps, simp add: eval_defs cong: let_weak_cong)+)
  done

lemma eval_truncated_version:
  "HttpParser_parse ''GET / H'' (HttpParser_new DEFAULT_OPTIONS) =
     ([], (HttpParser_new DEFAULT_OPTIONS)\<lparr>state := ERROR, buffer := ''GET / H'', messageType := Some REQUEST\<rparr>)"
  apply (simp add: HttpParser_parse_def appendBuffer_def HttpParser_new_def DEFAULT_OPTIONS_def)
  apply ((subst parse_loop.simps, simp add: eval_defs cong: let_weak_cong)+)
  done

lemma eval_get_and_partial:
  "HttpParser_parse (''GET / HTTP/1.1'' @ CRLF @ CRLF @ ''GET '') (HttpParser_new DEFAULT_OPTIONS) =
     ([], (HttpParser_new DEFAULT_OPTIONS)
            \<lparr>state := HEADERS, buffer := ''GET / HTTP/1.1'' @ CRLF @ CRLF @ ''GET '', bufferOffset := 16,
             messageType := Some REQUEST,
             requestLine := Some \<lparr>rl_method = ''GET'', rl_target = ''/'', rl_version = ''HTTP/1.1''\<rparr>\<rparr>)"
  apply (simp add: HttpParser_parse_def appendBuffer_def HttpParser_new_def DEFAULT_OPTIONS_def)
  apply ((subst parse_loop.simps, simp add: eval_defs cong: let_weak_cong)+)
  done

lemma parseContentLength_4: "parseContentLength ''4'' = Some 4"
  by code_simp

lemma eval_oversized_body:
  "HttpParser_parse (''POST / HTTP/1.1'' @ CRLF @ ''Content-Length: 4'' @ CRLF @ CRLF @ ''abcd'')
       (HttpParser_new (DEFAULT_OPTIONS\<lparr>maxBodySize := 3\<rparr>)) =
     ([Some \<lparr>m_body = ''abcd'', m_complete = True, m_contentLength = Some 4,
             m_headers = Some (HeadersMap_append ''Content-Length'' ''4'' HeadersMap_new),
             m_keepAlive = True,
             m_requestLine = Some \<lparr>rl_method = ''POST'', rl_target = ''/'', rl_version = ''HTTP/1.1''\<rparr>,
             m_statusLine = None, m_transferEncoding = CONTENT_LENGTH, m_type = REQUEST\<rparr>],
      HttpParser_new (DEFAULT_OPTIONS\<lparr>maxBodySize := 3\<rparr>))"
  apply (simp add: HttpParser_parse_def appendBuffer_def HttpParser_new_def DEFAULT_OPTIONS_def)
  apply ((subst parse_loop.simps, simp add: eval_defs parseContentLength_4 cong: let_weak_cong)+)
  done

lemma eval_http10_request:
  "HttpParser_parse (''GET / HTTP/1.0'' @ CRLF @ ''Host: x'' @ CRLF @ CRLF) (HttpParser_new DEFAULT_OPTIONS) =
     ([Some \<lparr>m_body = [], m_complete = True, m_contentLength = None,
             m_headers = Some (HeadersMap_append ''Host'' ''x'' HeadersMap_new),
             m_keepAlive = True,
             m_requestLine = Some \<lparr>rl_method = ''GET'', rl_target = ''/'', rl_version = ''HTTP/1.0''\<rparr>,
             m_statusLine = None, m_transferEncoding = CONTENT_LENGTH, m_type = REQUEST\<rparr>],
      HttpParser_new DEFAULT_OPTIONS)"
  apply (simp add: HttpParser_parse_def appendBuffer_def HttpParser_new_def DEFAULT_OPTIONS_def)
  apply ((subst parse_loop.simps, simp add: eval_defs cong: let_weak_cong)+)
  done

section \<open>Claims about the streaming parser\<close>

lemma state_appendBuffer [simp]: "state (appendBuffer d p) = state p"
  by (simp add: appendBuffer_def Let_def)

lemma unconsumed_appendBuffer:
  "sliceFrom (bufferOffset (appendBuffer d p)) (buffer (appendBuffer d p))
     = sliceFrom (bufferOffset p) (buffer p) @ d"
  by (simp add: appendBuffer_def Let_def sliceFrom_def)

lemma parse_in_error: "state p = ERROR \<Longrightarrow> HttpParser_parse d p = ([], appendBuffer d p)"
  by (simp add: HttpParser_parse_def parse_loop.simps[of "appendBuffer d p" "[]"])

lemma run_calls_Parse:
  "fst (run_calls p (Parse d # cs)) = fst (HttpParser_parse d p) @ fst (run_calls (snd (HttpParser_parse d p)) cs)"
  "snd (run_calls p (Parse d # cs)) = snd (run_calls (snd (HttpParser_parse d p)) cs)"
  by (simp_all split: prod.splits)

lemma run_calls_append:
  "snd (run_calls p (cs @ cs')) = snd (run_calls (snd (run_calls p cs)) cs')"
proof (induction cs arbitrary: p)
  case Nil
  then show ?case by simp
next
  case (Cons c cs)
  then show ?case by (cases c) (simp_all add: run_calls_Parse del: run_calls.simps(2))
qed

text \<open>
  Claim C3.  Once the state is \<open>ERROR\<close>, any number of further \<open>parse\<close> calls return no
  message and leave the state \<open>ERROR\<close>; they consume nothing: the unconsumed bytes
  afterwards are the unconsumed bytes before, followed by the data of the calls.  A
  \<open>reset\<close> after them, with either argument, gives the state \<open>IDLE\<close>.
\<close>

theorem error_state_is_terminal:
  assumes "state p = ERROR"
  shows "fst (run_calls p (map Parse ds)) = []
       \<and> state (snd (run_calls p (map Parse ds))) = ERROR
       \<and> sliceFrom (bufferOffset (snd (run_calls p (map Parse ds))))
            (buffer (snd (run_calls p (map Parse ds))))
          = sliceFrom (bufferOffset p) (buffer p) @ concat ds
       \<and> state (snd (run_calls p (map Parse ds @ [Reset clearBuffer]))) = IDLE"
proof -
  have main: "fst (run_calls p (map Parse ds)) = []
       \<and> state (snd (run_calls p (map Parse ds))) = ERROR
       \<and> sliceFrom (bufferOffset (snd (run_calls p (map Parse ds))))
            (buffer (snd (run_calls p (map Parse ds))))
          = sliceFrom (bufferOffset p) (buffer p) @ concat ds"
    using assms
  proof (induction ds arbitrary: p)
    case Nil
    then show ?case by simp
  next
    case (Cons d ds)
    have e: "state (appendBuffer d p) = ERROR" using Cons.prems by simp
    show ?case
      using Cons.IH[OF e] unconsumed_appendBuffer[of d p]
      by (simp add: parse_in_error[OF Cons.prems] split: prod.splits)
  qed
  have "state (snd (run_calls p (map Parse ds @ [Reset clearBuffer]))) = IDLE"
    by (simp add: run_calls_append)
  with main show ?thesis by simp
qed

theorem error_state_is_terminal_witness:
  "fst (run_calls
          ((HttpParser_new DEFAULT_OPTIONS)\<lparr>state := ERROR, buffer := ''GET / H'', messageType := Some REQUEST\<rparr>)
          (map Parse [''TTP/1.1'', CRLF @ CRLF])) = []
   \<and> state (snd (run_calls
          ((HttpParser_new DEFAULT_OPTIONS)\<lparr>state := ERROR, buffer := ''GET / H'', messageType := Some REQUEST\<rparr>)
          (map Parse [''TTP/1.1'', CRLF @ CRLF]))) = ERROR
   \<and> state (snd (run_calls
          ((HttpParser_new DEFAULT_OPTIONS)\<lparr>state := ERROR, buffer := ''GET / H'', messageType := Some REQUEST\<rparr>)
          (map Parse [''TTP/1.1'', CRLF @ CRLF] @ [Reset True]))) = IDLE"
  using error_state_is_terminal[of
      "(HttpParser_new DEFAULT_OPTIONS)\<lparr>state := ERROR, buffer := ''GET / H'', messageType := Some REQUEST\<rparr>"
      "[''TTP/1.1'', CRLF @ CRLF]" True]
  by simp

text \<open>
  Claim C1 fails on the code.  The request \<open>GET / HTTP/1.1 CRLF CRLF\<close> fed whole gives
  one message.  Fed as the fragments \<open>GET / H\<close> and \<open>TTP/1.1 CRLF CRLF\<close>, the first
  call already finds two spaces, takes \<open>H\<close> for the version and enters \<open>ERROR\<close>; no message
  is ever emitted.
\<close>

theorem fragmented_request_line_is_rejected:
  "''GET / H'' @ (''TTP/1.1'' @ CRLF @ CRLF) = ''GET / HTTP/1.1'' @ CRLF @ CRLF
   \<and> length (fst (run_calls (HttpParser_new DEFAULT_OPTIONS) [Parse (''GET / HTTP/1.1'' @ CRLF @ CRLF)])) = 1
   \<and> fst (run_calls (HttpParser_new DEFAULT_OPTIONS) [Parse ''GET / H'', Parse (''TTP/1.1'' @ CRLF @ CRLF)]) = []
   \<and> state (snd (run_calls (HttpParser_new DEFAULT_OPTIONS) [Parse ''GET / H'', Parse (''TTP/1.1'' @ CRLF @ CRLF)])) = ERROR"
  using eval_bare_get eval_truncated_version
  by (simp add: parse_in_error)

text \<open>
  Claim C2 fails on the code.  With \<open>maxBodySize = 3\<close> and a Content-Length body of four
  bytes present in the buffer, \<open>appendToBody\<close> sets the state to \<open>ERROR\<close>, but
  \<open>parseBodyContentLength\<close> goes on to build the message, and \<open>parse\<close> pushes it and resets
  the state to \<open>IDLE\<close>.
\<close>

theorem oversized_body_is_emitted:
  "map (map_option m_body)
     (fst (HttpParser_parse (''POST / HTTP/1.1'' @ CRLF @ ''Content-Length: 4'' @ CRLF @ CRLF @ ''abcd'')
        (HttpParser_new (DEFAULT_OPTIONS\<lparr>maxBodySize := 3\<rparr>)))) = [Some ''abcd'']
   \<and> state (snd (HttpParser_parse (''POST / HTTP/1.1'' @ CRLF @ ''Content-Length: 4'' @ CRLF @ CRLF @ ''abcd'')
        (HttpParser_new (DEFAULT_OPTIONS\<lparr>maxBodySize := 3\<rparr>)))) = IDLE"
  using eval_oversized_body
  by (simp add: HttpParser_new_def)

text \<open>
  Claim C7 fails on the code.  \<open>GET / HTTP/1.1 CRLF CRLF\<close> alone is a complete message:
  one message is emitted and nothing stays buffered.  Followed by the four bytes \<open>GET \<close>
  of the next message, the empty header block is no longer recognised (the handler asks
  for exactly two remaining bytes): no message is emitted and six bytes stay buffered.
\<close>

theorem complete_message_with_partial_next:
  "length (fst (HttpParser_parse (''GET / HTTP/1.1'' @ CRLF @ CRLF) (HttpParser_new DEFAULT_OPTIONS))) = 1
   \<and> getBufferedBytes (snd (HttpParser_parse (''GET / HTTP/1.1'' @ CRLF @ CRLF) (HttpParser_new DEFAULT_OPTIONS))) = 0
   \<and> fst (HttpParser_parse (''GET / HTTP/1.1'' @ CRLF @ CRLF @ ''GET '') (HttpParser_new DEFAULT_OPTIONS)) = []
   \<and> getBufferedBytes (snd (HttpParser_parse (''GET / HTTP/1.1'' @ CRLF @ CRLF @ ''GET '') (HttpParser_new DEFAULT_OPTIONS))) = 6"
  using eval_bare_get eval_get_and_partial
  by (simp add: getBufferedBytes_def HttpParser_new_def)


end
